theory Spec2Isabelle
  imports Main
begin

section \<open>Python values, errors and subscripting\<close>

text \<open>
  The script \<^verbatim>\<open>Data_Generator.py\<close> works on decoded JSON: \<^verbatim>\<open>None\<close>, integers,
  strings, lists and dicts with string keys. A dict is an association list whose
  first binding of a key is the one a lookup sees. Booleans and floating-point
  numbers are left out of the model; the single null value \<open>PNone\<close> also stands for
  the missing-value marker that pandas writes into a table.
\<close>

datatype pyval =
    PNone
  | PInt int
  | PStr string
  | PList "pyval list"
  | PDict "(string \<times> pyval) list"

text \<open>
  The exceptions the script can meet. \<open>SpotifyException\<close> stands for every failure
  of the web service (authorisation, transport, rate limit).
\<close>

datatype pyerr = TypeError | KeyError | IndexError | ValueError | SpotifyException

text \<open>Sequencing of statements that may raise: the first exception ends the run.\<close>

definition and_then :: "pyerr + 'a \<Rightarrow> ('a \<Rightarrow> pyerr + 'b) \<Rightarrow> pyerr + 'b" where
  "and_then m f = (case m of Inl e \<Rightarrow> Inl e | Inr x \<Rightarrow> f x)"

text \<open>
  \<^verbatim>\<open>v['key']\<close>: a dict looks the key up and raises \<^verbatim>\<open>KeyError\<close> when it is absent;
  \<^verbatim>\<open>None\<close> and an integer are not subscriptable, a list and a string take integer
  indices only: all four raise \<^verbatim>\<open>TypeError\<close>.
\<close>

fun getitem :: "pyval \<Rightarrow> string \<Rightarrow> pyerr + pyval" where
  "getitem (PDict kvs) k = (case map_of kvs k of None \<Rightarrow> Inl KeyError | Some v \<Rightarrow> Inr v)"
| "getitem PNone k = Inl TypeError"
| "getitem (PInt i) k = Inl TypeError"
| "getitem (PStr s) k = Inl TypeError"
| "getitem (PList xs) k = Inl TypeError"

text \<open>
  \<^verbatim>\<open>v[0]\<close>: the first element of a list or the first character of a string,
  \<^verbatim>\<open>IndexError\<close> when there is none; a dict has string keys only, so the key
  \<^verbatim>\<open>0\<close> is absent.
\<close>

fun getitem0 :: "pyval \<Rightarrow> pyerr + pyval" where
  "getitem0 (PList []) = Inl IndexError"
| "getitem0 (PList (x # xs)) = Inr x"
| "getitem0 (PStr []) = Inl IndexError"
| "getitem0 (PStr (c # s)) = Inr (PStr [c])"
| "getitem0 (PDict kvs) = Inl KeyError"
| "getitem0 PNone = Inl TypeError"
| "getitem0 (PInt i) = Inl TypeError"

text \<open>
  \<^verbatim>\<open>for item in v\<close>: a list yields its elements, a string its characters, a dict
  its keys; \<^verbatim>\<open>None\<close> and an integer are not iterable.
\<close>

fun iter :: "pyval \<Rightarrow> pyerr + pyval list" where
  "iter (PList xs) = Inr xs"
| "iter (PStr s) = Inr (map (\<lambda>c. PStr [c]) s)"
| "iter (PDict kvs) = Inr (map (\<lambda>kv. PStr (fst kv)) kvs)"
| "iter PNone = Inl TypeError"
| "iter (PInt i) = Inl TypeError"

text \<open>The label arguments \<^verbatim>\<open>mood\<close> and \<^verbatim>\<open>time\<close>: a string or \<^verbatim>\<open>None\<close>.\<close>

definition label :: "string option \<Rightarrow> pyval" where
  "label l = (case l of None \<Rightarrow> PNone | Some s \<Rightarrow> PStr s)"

section \<open>Track extraction: \<^verbatim>\<open>get_tracks_from_playlist\<close>\<close>

text \<open>
  The body of the \<^verbatim>\<open>try\<close> block for one item (lines 76 to 110), up to the list
  \<^verbatim>\<open>info\<close> that is appended. With \<^verbatim>\<open>time == None\<close> the fields are read from
  \<^verbatim>\<open>item['track']\<close>, otherwise from the item itself, and \<^verbatim>\<open>time\<close> is a ninth field.
\<close>

definition item_info :: "string option \<Rightarrow> string option \<Rightarrow> pyval \<Rightarrow> pyerr + pyval list" where
  "item_info time mood item =
     (case time of
        None \<Rightarrow>
          and_then (getitem item ''track'') (\<lambda>track.
          and_then (getitem track ''name'') (\<lambda>track_name.
          and_then (getitem track ''id'') (\<lambda>track_id.
          and_then (getitem track ''artists'') (\<lambda>artists.
          and_then (getitem0 artists) (\<lambda>artist.
          and_then (getitem artist ''name'') (\<lambda>artist_name.
          and_then (getitem artist ''id'') (\<lambda>artist_id.
          and_then (getitem track ''album'') (\<lambda>album.
          and_then (getitem album ''name'') (\<lambda>album_name.
          and_then (getitem track ''album'') (\<lambda>album'.
          and_then (getitem album' ''id'') (\<lambda>album_id.
          and_then (getitem track ''popularity'') (\<lambda>popularity.
          Inr [track_name, track_id, artist_name, artist_id,
               album_name, album_id, popularity, label mood]))))))))))))
      | Some t \<Rightarrow>
          and_then (getitem item ''name'') (\<lambda>track_name.
          and_then (getitem item ''id'') (\<lambda>track_id.
          and_then (getitem item ''artists'') (\<lambda>artists.
          and_then (getitem0 artists) (\<lambda>artist.
          and_then (getitem artist ''name'') (\<lambda>artist_name.
          and_then (getitem artist ''id'') (\<lambda>artist_id.
          and_then (getitem item ''album'') (\<lambda>album.
          and_then (getitem album ''name'') (\<lambda>album_name.
          and_then (getitem item ''album'') (\<lambda>album'.
          and_then (getitem album' ''id'') (\<lambda>album_id.
          and_then (getitem item ''popularity'') (\<lambda>popularity.
          Inr [track_name, track_id, artist_name, artist_id,
               album_name, album_id, popularity, label mood, PStr t]))))))))))))"

text \<open>
  The loop of lines 71 to 112: \<^verbatim>\<open>except TypeError: continue\<close> skips the item;
  every other exception leaves the function.
\<close>

fun track_loop ::
  "string option \<Rightarrow> string option \<Rightarrow> pyval list \<Rightarrow> pyval list list \<Rightarrow> pyerr + pyval list list"
where
  "track_loop time mood [] tracks = Inr tracks"
| "track_loop time mood (item # items) tracks =
     (case item_info time mood item of
        Inr info \<Rightarrow> track_loop time mood items (tracks @ [info])
      | Inl TypeError \<Rightarrow> track_loop time mood items tracks
      | Inl e \<Rightarrow> Inl e)"

subsection \<open>\<^verbatim>\<open>np.array(tracks)\<close>\<close>

text \<open>Python's \<^verbatim>\<open>str\<close> of an integer: its decimal digits, after a minus sign if negative.\<close>

function str_nat :: "nat \<Rightarrow> string" where
  "str_nat n =
     (if n < 10 then [''0123456789'' ! n]
      else str_nat (n div 10) @ [''0123456789'' ! (n mod 10)])"
  by pat_completeness auto
termination
  by (relation "measure (\<lambda>n. n)") auto

declare str_nat.simps [simp del]

definition str_int :: "int \<Rightarrow> string" where
  "str_int i = (if i < 0 then CHR ''-'' # str_nat (nat (- i)) else str_nat (nat i))"

text \<open>
  A fixed-width text array pads with NUL characters and drops them when an element
  is read, so a string does not keep NULs at its end.
\<close>

definition rstrip_nul :: "string \<Rightarrow> string" where
  "rstrip_nul s = rev (dropWhile (\<lambda>c. c = CHR 0x00) (rev s))"

datatype np_dtype = Float64 | Unicode | Object

record ndarray =
  dtype :: np_dtype
  data :: "pyval list list"

fun is_sequence :: "pyval \<Rightarrow> bool" where
  "is_sequence (PList xs) = True"
| "is_sequence v = False"

text \<open>
  The cells that a text array can hold: strings, and integers of the 64-bit
  ranges (a larger integer is kept as a Python object).
\<close>

fun is_text :: "pyval \<Rightarrow> bool" where
  "is_text (PStr s) = True"
| "is_text (PInt i) = (- (2 ^ 63) \<le> i \<and> i < 2 ^ 64)"
| "is_text v = False"

fun np_str :: "pyval \<Rightarrow> pyval" where
  "np_str (PStr s) = PStr (rstrip_nul s)"
| "np_str (PInt i) = PStr (str_int i)"
| "np_str v = v"

text \<open>
  \<^verbatim>\<open>np.array\<close> on the list of rows. Every row has eight or nine cells, one of them
  the label (a string or \<^verbatim>\<open>None\<close>), so the rows are never all-numeric.
  \<^item> No row: the empty array of dtype float64.
  \<^item> A cell that is a list next to cells that are not: the rows are ragged
    (\<^verbatim>\<open>ValueError\<close>, "inhomogeneous shape"; NumPy before 1.24 warns and builds an
    object array instead).
  \<^item> Only strings and integers: a text array; every integer becomes its decimal
    string.
  \<^item> Otherwise (a \<^verbatim>\<open>None\<close> or a dict among the cells): an object array, cells as
    they are.
\<close>

definition np_array :: "pyval list list \<Rightarrow> pyerr + ndarray" where
  "np_array tracks =
     (if tracks = [] then Inr \<lparr>dtype = Float64, data = []\<rparr>
      else if list_ex (list_ex is_sequence) tracks then Inl ValueError
      else if list_all (list_all is_text) tracks
        then Inr \<lparr>dtype = Unicode, data = map (map np_str) tracks\<rparr>
      else Inr \<lparr>dtype = Object, data = tracks\<rparr>)"

definition get_tracks_from_playlist ::
  "pyval \<Rightarrow> string option \<Rightarrow> string option \<Rightarrow> pyerr + ndarray"
where
  "get_tracks_from_playlist playlist mood time =
     and_then (getitem playlist ''items'') (\<lambda>items.
     and_then (iter items) (\<lambda>items'.
     and_then (track_loop time mood items' []) np_array))"

section \<open>Tables\<close>

text \<open>
  A pandas DataFrame: the column labels and the rows, each row one cell per
  column. Row labels are not modelled: every operation below works by position.
\<close>

record dataframe =
  columns :: "string list"
  rows :: "pyval list list"

definition well_formed :: "dataframe \<Rightarrow> bool" where
  "well_formed df = list_all (\<lambda>r. length r = length (columns df)) (rows df)"

fun col_index :: "string \<Rightarrow> string list \<Rightarrow> nat option" where
  "col_index c [] = None"
| "col_index c (x # xs) = (if x = c then Some 0 else map_option Suc (col_index c xs))"

text \<open>
  \<^verbatim>\<open>for x in df[c]\<close>: what the loop over \<^verbatim>\<open>df[c]\<close> visits. Without a column
  labelled \<open>c\<close> the subscript raises \<^verbatim>\<open>KeyError\<close>. When the label stands once,
  \<^verbatim>\<open>df[c]\<close> is that column and the loop visits its values in row order. When the
  label stands several times, \<^verbatim>\<open>df[c]\<close> is the table of those columns, and a loop
  over a table visits its column labels: the label \<open>c\<close>, once for each of them.
\<close>

definition df_getitem :: "dataframe \<Rightarrow> string \<Rightarrow> pyerr + pyval list" where
  "df_getitem df c =
     (case col_index c (columns df) of
        None \<Rightarrow> Inl KeyError
      | Some j \<Rightarrow>
          if count_list (columns df) c = 1 then Inr (map (\<lambda>r. r ! j) (rows df))
          else Inr (replicate (count_list (columns df) c) (PStr c)))"

subsection \<open>Deduplication: \<^verbatim>\<open>drop_duplicates\<close>\<close>

text \<open>
  \<^verbatim>\<open>duplicated\<close> marks a row that equals an earlier one in every column;
  \<^verbatim>\<open>drop_duplicates\<close> keeps the unmarked rows (\<^verbatim>\<open>keep='first'\<close>, the default).
  Rows are hashed, so a list or dict in a cell raises \<^verbatim>\<open>TypeError\<close>.
\<close>

fun hashable :: "pyval \<Rightarrow> bool" where
  "hashable (PList xs) = False"
| "hashable (PDict kvs) = False"
| "hashable v = True"

fun duplicated :: "'a list \<Rightarrow> 'a list \<Rightarrow> bool list" where
  "duplicated seen [] = []"
| "duplicated seen (r # rs) = (r \<in> set seen) # duplicated (r # seen) rs"

definition boolean_mask :: "'a list \<Rightarrow> bool list \<Rightarrow> 'a list" where
  "boolean_mask rs keep = map fst (filter snd (zip rs keep))"

definition drop_duplicates :: "dataframe \<Rightarrow> pyerr + dataframe" where
  "drop_duplicates df =
     (if list_all (list_all hashable) (rows df)
      then Inr (df\<lparr>rows := boolean_mask (rows df) (map Not (duplicated [] (rows df)))\<rparr>)
      else Inl TypeError)"

section \<open>Genre augmentation: \<^verbatim>\<open>add_genres\<close>\<close>

text \<open>
  The web service is outside the program. \<open>sp i x\<close> is its answer to the \<open>i\<close>-th request
  of the running call (counted from 0) when that request asks for \<open>x\<close>: the answer may
  depend on when it is asked, and it may be an exception.
\<close>

type_synonym artist_service = "nat \<Rightarrow> pyval \<Rightarrow> pyerr + pyval"

text \<open>The loop of lines 188 to 191; \<open>i\<close> counts the requests made so far.\<close>

fun genres_loop ::
  "artist_service \<Rightarrow> nat \<Rightarrow> pyval list \<Rightarrow> pyval list \<Rightarrow> pyerr + pyval list"
where
  "genres_loop sp i [] genres = Inr genres"
| "genres_loop sp i (aid # ids) genres =
     and_then (sp i aid) (\<lambda>artist.
     and_then (getitem artist ''genres'') (\<lambda>g.
     genres_loop sp (Suc i) ids (genres @ [g])))"

text \<open>
  \<^verbatim>\<open>df[c] = vals\<close> for a list of values. A table without rows first takes one row
  of missing cells per value; otherwise the list must have one value per row
  (\<^verbatim>\<open>ValueError\<close>). A column labelled \<open>c\<close> is overwritten where it stands, and a
  new label is added as the last column. When the label stands several times the
  row's value goes into each of those columns (pandas assigns column by column
  instead when there are exactly as many values as columns of that label: that case
  is not modelled, and the theorems on \<^verbatim>\<open>add_genres\<close> assume distinct labels).
\<close>

fun set_cells :: "string \<Rightarrow> string list \<Rightarrow> nat \<Rightarrow> pyval \<Rightarrow> pyval list \<Rightarrow> pyval list" where
  "set_cells c [] j v r = r"
| "set_cells c (x # xs) j v r = set_cells c xs (Suc j) v (if x = c then r[j := v] else r)"

definition df_setitem :: "dataframe \<Rightarrow> string \<Rightarrow> pyval list \<Rightarrow> pyerr + dataframe" where
  "df_setitem df c vals =
     (let rs = (if rows df = []
                then replicate (length vals) (replicate (length (columns df)) PNone)
                else rows df)
      in if length vals = length rs
         then (case col_index c (columns df) of
                 Some j \<Rightarrow> Inr (df\<lparr>rows := map2 (\<lambda>r v. set_cells c (columns df) 0 v r) rs vals\<rparr>)
               | None \<Rightarrow> Inr \<lparr>columns = columns df @ [c], rows = map2 (\<lambda>r v. r @ [v]) rs vals\<rparr>)
         else Inl ValueError)"

text \<open>
  The function returns \<^verbatim>\<open>None\<close> and changes the caller's table: the model returns the
  table as it is after the call.
\<close>

definition add_genres :: "artist_service \<Rightarrow> dataframe \<Rightarrow> string \<Rightarrow> pyerr + dataframe" where
  "add_genres sp df artist_id =
     and_then (df_getitem df artist_id) (\<lambda>ids.
     and_then (genres_loop sp 0 ids []) (\<lambda>genres.
     df_setitem df ''genres'' genres))"

section \<open>Feature augmentation: \<^verbatim>\<open>generate_features\<close>\<close>

text \<open>
  \<^verbatim>\<open>sp.audio_features(_id)\<close> answers with a list whose elements are a feature dict or
  \<^verbatim>\<open>None\<close>; the script takes element 0.
\<close>

type_synonym features = "(string \<times> pyval) list"

type_synonym features_service = "nat \<Rightarrow> pyval \<Rightarrow> pyerr + features option list"

fun features_loop ::
  "features_service \<Rightarrow> nat \<Rightarrow> pyval list \<Rightarrow> features option list \<Rightarrow> pyerr + features option list"
where
  "features_loop sp i [] features_list = Inr features_list"
| "features_loop sp i (tid # ids) features_list =
     and_then (sp i tid) (\<lambda>answer.
       case answer of
         [] \<Rightarrow> Inl IndexError
       | f # fs \<Rightarrow> features_loop sp (Suc i) ids (features_list @ [f]))"

text \<open>\<^verbatim>\<open>filter(None, features_list)\<close> keeps the true values: the non-empty dicts.\<close>

fun filter_None :: "features option list \<Rightarrow> features list" where
  "filter_None [] = []"
| "filter_None (None # fs) = filter_None fs"
| "filter_None (Some kvs # fs) = (if kvs = [] then filter_None fs else kvs # filter_None fs)"

text \<open>
  \<^verbatim>\<open>pd.DataFrame(records)\<close> for a list of dicts: the columns are the keys in the order
  they first appear, a key that a dict lacks gives a missing cell.
\<close>

definition unique :: "'a list \<Rightarrow> 'a list" where
  "unique xs = boolean_mask xs (map Not (duplicated [] xs))"

definition DataFrame :: "features list \<Rightarrow> dataframe" where
  "DataFrame records =
     (let cols = unique (concat (map (map fst) records))
      in \<lparr>columns = cols,
          rows = map (\<lambda>d. map (\<lambda>c. case map_of d c of None \<Rightarrow> PNone | Some v \<Rightarrow> v) cols) records\<rparr>)"

text \<open>\<^verbatim>\<open>df.drop(columns=names)\<close>: \<^verbatim>\<open>KeyError\<close> when one of the labels is not a column.\<close>

definition df_drop :: "dataframe \<Rightarrow> string list \<Rightarrow> pyerr + dataframe" where
  "df_drop df names =
     (if list_all (\<lambda>n. n \<in> set (columns df)) names
      then Inr \<lparr>columns = filter (\<lambda>c. c \<notin> set names) (columns df),
                rows = map (\<lambda>r. map snd (filter (\<lambda>cv. fst cv \<notin> set names) (zip (columns df) r)))
                         (rows df)\<rparr>
      else Inl KeyError)"

definition df_rename :: "dataframe \<Rightarrow> string \<Rightarrow> string \<Rightarrow> dataframe" where
  "df_rename df old new = df\<lparr>columns := map (\<lambda>c. if c = old then new else c) (columns df)\<rparr>"

text \<open>
  \<^verbatim>\<open>left.merge(right, on=key, how='left')\<close>. The key must be a column of both tables
  (\<^verbatim>\<open>KeyError\<close>), once in each (\<^verbatim>\<open>ValueError\<close>), and its values are hashed
  (\<^verbatim>\<open>TypeError\<close>). Every row of \<open>left\<close>, in order, is joined with each row of \<open>right\<close>
  that has the same key, in the order of \<open>right\<close>; a row without a partner is kept once,
  with missing cells for the columns of \<open>right\<close>. A column name the two tables share
  gets the suffixes \<^verbatim>\<open>_x\<close> and \<^verbatim>\<open>_y\<close>. The column types pandas infers (an integer
  column turning to floats beside missing cells, the refusal to join a text key with a
  numeric one) are not modelled.
\<close>

definition drop_nth :: "nat \<Rightarrow> 'a list \<Rightarrow> 'a list" where
  "drop_nth j r = take j r @ drop (Suc j) r"

definition merge_left :: "dataframe \<Rightarrow> dataframe \<Rightarrow> string \<Rightarrow> pyerr + dataframe" where
  "merge_left left right key =
     (case col_index key (columns left) of
        None \<Rightarrow> Inl KeyError
      | Some i \<Rightarrow>
     (case col_index key (columns right) of
        None \<Rightarrow> Inl KeyError
      | Some j \<Rightarrow>
          if count_list (columns left) key = 1 \<and> count_list (columns right) key = 1
          then
            if list_all (\<lambda>l. hashable (l ! i)) (rows left)
               \<and> list_all (\<lambda>r. hashable (r ! j)) (rows right)
            then Inr
              \<lparr>columns =
                 map (\<lambda>c. if c = key then c
                          else if c \<in> set (columns right) then c @ ''_x'' else c) (columns left)
                 @ map (\<lambda>c. if c \<in> set (columns left) then c @ ''_y'' else c)
                     (drop_nth j (columns right)),
               rows =
                 concat (map (\<lambda>l.
                   case filter (\<lambda>r. r ! j = l ! i) (rows right) of
                     [] \<Rightarrow> [l @ replicate (length (columns right) - 1) PNone]
                   | m # ms \<Rightarrow> map (\<lambda>r. l @ drop_nth j r) (m # ms)) (rows left))\<rparr>
            else Inl TypeError
          else Inl ValueError))"

text \<open>
  Lines 161 to 175. The identifiers are read from the column named by the argument;
  the join is on the column \<^verbatim>\<open>'track_id'\<close>, whatever the argument.
\<close>

definition generate_features :: "features_service \<Rightarrow> dataframe \<Rightarrow> string \<Rightarrow> pyerr + dataframe" where
  "generate_features sp df track_id =
     and_then (df_getitem df track_id) (\<lambda>ids.
     and_then (features_loop sp 0 ids []) (\<lambda>features_list.
     and_then (df_drop (DataFrame (filter_None features_list))
                 [''uri'', ''track_href'', ''analysis_url'']) (\<lambda>features_df.
     and_then (merge_left df (df_rename features_df ''id'' ''track_id'') ''track_id'') (\<lambda>df'.
     if ''index'' \<in> set (columns df') then df_drop df' [''index''] else Inr df'))))"

section \<open>Vocabulary of the properties\<close>

text \<open>Whether a cell holds a Python integer.\<close>

fun is_int :: "pyval \<Rightarrow> bool" where
  "is_int (PInt i) = True"
| "is_int v = False"

text \<open>
  A feature lookup with no result: element 0 of the answer is \<^verbatim>\<open>None\<close> or an empty
  dict, the values \<^verbatim>\<open>filter(None, ...)\<close> removes.
\<close>

fun no_result :: "pyerr + features option list \<Rightarrow> bool" where
  "no_result (Inr (None # fs)) = True"
| "no_result (Inr (Some kvs # fs)) = (kvs = [])"
| "no_result (Inr []) = False"
| "no_result (Inl e) = False"

text \<open>
  Sample data: a track object as the catalogue returns it, with two listed artists,
  and the feature dict of a track.
\<close>

definition track_of :: "string \<Rightarrow> string \<Rightarrow> pyval \<Rightarrow> pyval" where
  "track_of name tid popularity =
     PDict [(''name'', PStr name), (''id'', PStr tid),
            (''artists'', PList [PDict [(''name'', PStr ''Ann''), (''id'', PStr ''a1'')],
                                 PDict [(''name'', PStr ''Bob''), (''id'', PStr ''a2'')]]),
            (''album'', PDict [(''name'', PStr ''LP''), (''id'', PStr ''b1'')]),
            (''popularity'', popularity)]"

definition features_of :: "pyval \<Rightarrow> features" where
  "features_of tid =
     [(''danceability'', PInt 1), (''energy'', PInt 0), (''type'', PStr ''audio_features''),
      (''id'', tid), (''uri'', PStr ''spotify:track''), (''track_href'', PStr ''https://api''),
      (''analysis_url'', PStr ''https://api''), (''duration_ms'', PInt 200000)]"

text \<open>A page of the user's top tracks with two items, and the array extracted from it.\<close>

definition top_page :: pyval where
  "top_page =
     PDict [(''items'', PList [track_of ''One'' ''t1'' (PInt 55), track_of ''Two'' ''t2'' (PInt 7)])]"

definition top_array :: ndarray where
  "top_array =
     \<lparr>dtype = Object,
      data = [[PStr ''One'', PStr ''t1'', PStr ''Ann'', PStr ''a1'', PStr ''LP'', PStr ''b1'',
               PInt 55, PNone, PStr ''short_term''],
              [PStr ''Two'', PStr ''t2'', PStr ''Ann'', PStr ''a1'', PStr ''LP'', PStr ''b1'',
               PInt 7, PNone, PStr ''short_term'']]\<rparr>"

text \<open>
  A page of a playlist with one item, its track listing two artists; the same page
  with the second artist taken away; and the array extracted from either.
\<close>

definition mood_page :: pyval where
  "mood_page = PDict [(''items'', PList [PDict [(''track'', track_of ''One'' ''t1'' (PInt 55))]])]"

definition mood_page_first :: pyval where
  "mood_page_first =
     PDict [(''items'', PList [PDict [(''track'',
       PDict [(''name'', PStr ''One''), (''id'', PStr ''t1''),
              (''artists'', PList [PDict [(''name'', PStr ''Ann''), (''id'', PStr ''a1'')]]),
              (''album'', PDict [(''name'', PStr ''LP''), (''id'', PStr ''b1'')]),
              (''popularity'', PInt 55)])]])]"

definition mood_array :: ndarray where
  "mood_array =
     \<lparr>dtype = Unicode,
      data = [[PStr ''One'', PStr ''t1'', PStr ''Ann'', PStr ''a1'', PStr ''LP'', PStr ''b1'',
               PStr ''55'', PStr ''Happy'']]\<rparr>"

text \<open>
  A table of two tracks, a sample artist service (it answers with the identifier it
  was asked for and the number of the request), and the table after
  \<^verbatim>\<open>add_genres\<close>.
\<close>

definition genres_table :: dataframe where
  "genres_table =
     \<lparr>columns = [''track_id'', ''artist_id''],
      rows = [[PStr ''t1'', PStr ''a1''], [PStr ''t2'', PStr ''a2'']]\<rparr>"

definition genres_service :: artist_service where
  "genres_service i aid = Inr (PDict [(''id'', aid), (''genres'', PList [aid, PInt (int i)])])"

definition genres_result :: dataframe where
  "genres_result =
     \<lparr>columns = [''track_id'', ''artist_id'', ''genres''],
      rows = [[PStr ''t1'', PStr ''a1'', PList [PStr ''a1'', PInt 0]],
              [PStr ''t2'', PStr ''a2'', PList [PStr ''a2'', PInt 1]]]\<rparr>"

section \<open>Properties of deduplication\<close>

lemma boolean_mask_Cons:
  "boolean_mask (r # rs) (k # ks) = (if k then r # boolean_mask rs ks else boolean_mask rs ks)"
  by (simp add: boolean_mask_def)

lemma boolean_mask_Nil: "boolean_mask [] ks = []"
  by (simp add: boolean_mask_def)

lemma kept_subset: "set (boolean_mask rs ks) \<subseteq> set rs"
  unfolding boolean_mask_def by (auto dest: set_zip_leftD)

lemma kept_fresh:
  "set (boolean_mask rs (map Not (duplicated seen rs))) \<inter> set seen = {}"
proof (induction rs arbitrary: seen)
  case Nil show ?case by (simp add: boolean_mask_Nil)
next
  case (Cons r rs)
  from Cons.IH[of "r # seen"] show ?case
    by (auto simp: boolean_mask_Cons)
qed

lemma kept_distinct: "distinct (boolean_mask rs (map Not (duplicated seen rs)))"
proof (induction rs arbitrary: seen)
  case Nil show ?case by (simp add: boolean_mask_Nil)
next
  case (Cons r rs)
  from Cons.IH[of "r # seen"] kept_fresh[of rs "r # seen"] show ?case
    by (auto simp: boolean_mask_Cons)
qed

lemma kept_id:
  "distinct rs \<Longrightarrow> set rs \<inter> set seen = {} \<Longrightarrow>
   boolean_mask rs (map Not (duplicated seen rs)) = rs"
proof (induction rs arbitrary: seen)
  case Nil show ?case by (simp add: boolean_mask_Nil)
next
  case (Cons r rs)
  from Cons.prems have "distinct rs" "set rs \<inter> set (r # seen) = {}" "r \<notin> set seen" by auto
  with Cons.IH[of "r # seen"] show ?case by (simp add: boolean_mask_Cons)
qed

lemma kept_nths:
  "boolean_mask rs (map Not (duplicated seen rs)) =
   map (\<lambda>i. rs ! i) (filter (\<lambda>i. rs ! i \<notin> set seen \<union> set (take i rs)) [0..<length rs])"
proof (induction rs arbitrary: seen)
  case Nil show ?case by (simp add: boolean_mask_Nil)
next
  case (Cons r rs)
  have up: "[0..<length (r # rs)] = 0 # map Suc [0..<length rs]"
    by (simp add: upt_conv_Cons map_Suc_upt del: upt_Suc)
  show ?case
    unfolding up using Cons.IH[of "r # seen"]
    by (auto simp: boolean_mask_Cons filter_map comp_def simp del: upt_Suc intro!: arg_cong2[where f=map] filter_cong)
qed

lemma kept_hashable:
  "list_all (list_all hashable) rs \<Longrightarrow> list_all (list_all hashable) (boolean_mask rs ks)"
  using kept_subset[of rs ks] by (auto simp: list_all_iff)

text \<open>
  C5. Deduplication is idempotent: removing the exact-duplicate rows of a table twice
  gives the same table as removing them once (and a table whose rows cannot be hashed
  raises the same \<^verbatim>\<open>TypeError\<close> either way).
\<close>

theorem drop_duplicates_idempotent:
  "and_then (drop_duplicates df) drop_duplicates = drop_duplicates df"
proof (cases "list_all (list_all hashable) (rows df)")
  case True
  let ?kept = "boolean_mask (rows df) (map Not (duplicated [] (rows df)))"
  have "boolean_mask ?kept (map Not (duplicated [] ?kept)) = ?kept"
    by (rule kept_id) (simp_all add: kept_distinct)
  with True kept_hashable[OF True] show ?thesis
    by (simp add: drop_duplicates_def and_then_def)
next
  case False
  then show ?thesis by (simp add: drop_duplicates_def and_then_def)
qed

text \<open>
  C4. Deduplication removes a row exactly when it equals an earlier row in all columns:
  the rows kept are, in order, those that no earlier row equals. Two fully identical
  rows collapse to one; two rows that are identical except for the mood both survive.
  The table being deduplicated in the script carries the column \<^verbatim>\<open>index\<close> made by
  \<^verbatim>\<open>reset_index\<close>, which counts among "all columns".
\<close>

theorem drop_duplicates_exact:
  assumes "list_all (list_all hashable) (rows df)"
    and "list_all hashable r" and "list_all hashable pre" and "m1 \<noteq> m2"
  shows "drop_duplicates df =
           Inr (df\<lparr>rows := map (\<lambda>i. rows df ! i)
                  (filter (\<lambda>i. rows df ! i \<notin> set (take i (rows df))) [0..<length (rows df)])\<rparr>)
       \<and> drop_duplicates \<lparr>columns = cs, rows = [r, r]\<rparr> = Inr \<lparr>columns = cs, rows = [r]\<rparr>
       \<and> drop_duplicates \<lparr>columns = cs, rows = [pre @ [PStr m1], pre @ [PStr m2]]\<rparr>
           = Inr \<lparr>columns = cs, rows = [pre @ [PStr m1], pre @ [PStr m2]]\<rparr>"
proof -
  have "boolean_mask (rows df) (map Not (duplicated [] (rows df))) =
        map (\<lambda>i. rows df ! i)
          (filter (\<lambda>i. rows df ! i \<notin> set (take i (rows df))) [0..<length (rows df)])"
    using kept_nths[of "rows df" "[]"] by simp
  with assms show ?thesis
    by (simp add: drop_duplicates_def boolean_mask_Cons boolean_mask_Nil)
qed

theorem drop_duplicates_exact_witness:
  "drop_duplicates
     \<lparr>columns = [''index'', ''track_name'', ''track_id'', ''mood''],
      rows = [[PInt 0, PStr ''Song'', PStr ''t1'', PStr ''Happy''],
              [PInt 0, PStr ''Song'', PStr ''t1'', PStr ''Happy''],
              [PInt 0, PStr ''Song'', PStr ''t1'', PStr ''Sad'']]\<rparr>
   = Inr \<lparr>columns = [''index'', ''track_name'', ''track_id'', ''mood''],
      rows = [[PInt 0, PStr ''Song'', PStr ''t1'', PStr ''Happy''],
              [PInt 0, PStr ''Song'', PStr ''t1'', PStr ''Sad'']]\<rparr>
  \<and> drop_duplicates \<lparr>columns = [''track_id'', ''mood''], rows = [[PStr ''t1'', PStr ''Happy''], [PStr ''t1'', PStr ''Happy'']]\<rparr>
     = Inr \<lparr>columns = [''track_id'', ''mood''], rows = [[PStr ''t1'', PStr ''Happy'']]\<rparr>
  \<and> drop_duplicates \<lparr>columns = [''track_id'', ''mood''], rows = [[PStr ''t1'', PStr ''Happy''], [PStr ''t1'', PStr ''Sad'']]\<rparr>
     = Inr \<lparr>columns = [''track_id'', ''mood''], rows = [[PStr ''t1'', PStr ''Happy''], [PStr ''t1'', PStr ''Sad'']]\<rparr>"
  using drop_duplicates_exact[of
     "\<lparr>columns = [''index'', ''track_name'', ''track_id'', ''mood''],
      rows = [[PInt 0, PStr ''Song'', PStr ''t1'', PStr ''Happy''],
              [PInt 0, PStr ''Song'', PStr ''t1'', PStr ''Happy''],
              [PInt 0, PStr ''Song'', PStr ''t1'', PStr ''Sad'']]\<rparr>"
     "[PStr ''t1'', PStr ''Happy'']" "[PStr ''t1'']" "''Happy''" "''Sad''" "[''track_id'', ''mood'']"]
  by (simp add: upt_rec)

section \<open>Properties of track extraction\<close>

lemma and_then_Inl: "and_then (Inl e) f = Inl e"
  by (simp add: and_then_def)

lemma and_then_Inr: "and_then (Inr x) f = f x"
  by (simp add: and_then_def)

lemma and_then_eq_Inr: "and_then m f = Inr y \<longleftrightarrow> (\<exists>x. m = Inr x \<and> f x = Inr y)"
  by (cases m) (simp_all add: and_then_def)

lemma item_info_None_Inr:
  assumes "item_info None mood item = Inr info"
  obtains track track_name track_id artists artist artist_name artist_id
          album album_name album_id popularity
  where "getitem item ''track'' = Inr track"
    and "getitem track ''name'' = Inr track_name"
    and "getitem track ''id'' = Inr track_id"
    and "getitem track ''artists'' = Inr artists"
    and "getitem0 artists = Inr artist"
    and "getitem artist ''name'' = Inr artist_name"
    and "getitem artist ''id'' = Inr artist_id"
    and "getitem track ''album'' = Inr album"
    and "getitem album ''name'' = Inr album_name"
    and "getitem album ''id'' = Inr album_id"
    and "getitem track ''popularity'' = Inr popularity"
    and "info = [track_name, track_id, artist_name, artist_id,
                 album_name, album_id, popularity, label mood]"
  using assms unfolding item_info_def by (auto simp: and_then_eq_Inr)

lemma item_info_Some_Inr:
  assumes "item_info (Some t) mood item = Inr info"
  obtains track_name track_id artists artist artist_name artist_id
          album album_name album_id popularity
  where "getitem item ''name'' = Inr track_name"
    and "getitem item ''id'' = Inr track_id"
    and "getitem item ''artists'' = Inr artists"
    and "getitem0 artists = Inr artist"
    and "getitem artist ''name'' = Inr artist_name"
    and "getitem artist ''id'' = Inr artist_id"
    and "getitem item ''album'' = Inr album"
    and "getitem album ''name'' = Inr album_name"
    and "getitem album ''id'' = Inr album_id"
    and "getitem item ''popularity'' = Inr popularity"
    and "info = [track_name, track_id, artist_name, artist_id,
                 album_name, album_id, popularity, label mood, PStr t]"
  using assms unfolding item_info_def by (auto simp: and_then_eq_Inr)

lemma track_loop_Inr:
  "track_loop time mood items tracks = Inr result \<Longrightarrow>
   \<exists>infos. result = tracks @ infos \<and> length infos \<le> length items \<and>
     (\<forall>info \<in> set infos. \<exists>item \<in> set items. item_info time mood item = Inr info)"
proof (induction items arbitrary: tracks)
  case Nil
  then show ?case by simp
next
  case (Cons item items)
  show ?case
  proof (cases "item_info time mood item")
    case (Inr info)
    with Cons.prems have "track_loop time mood items (tracks @ [info]) = Inr result" by simp
    from Cons.IH[OF this] obtain infos where
      "result = (tracks @ [info]) @ infos" "length infos \<le> length items"
      "\<forall>i \<in> set infos. \<exists>item \<in> set items. item_info time mood item = Inr i" by blast
    with Inr show ?thesis
      by (intro exI[of _ "info # infos"]) auto
  next
    case (Inl e)
    with Cons.prems have "e = TypeError" "track_loop time mood items tracks = Inr result"
      by (cases e; simp)+
    from Cons.IH[OF this(2)] show ?thesis by (auto intro: le_SucI)
  qed
qed

lemma track_loop_cong:
  "map (item_info time mood) xs = map (item_info time mood) ys \<Longrightarrow>
   track_loop time mood xs tracks = track_loop time mood ys tracks"
proof (induction xs arbitrary: ys tracks)
  case Nil
  then show ?case by simp
next
  case (Cons x xs)
  then obtain y ys' where ys: "ys = y # ys'" by (cases ys) auto
  with Cons.prems have "item_info time mood x = item_info time mood y"
    and "map (item_info time mood) xs = map (item_info time mood) ys'" by simp_all
  with Cons.IH ys show ?case
    by (simp split: sum.splits pyerr.splits)
qed

lemma np_array_Inr:
  "np_array tracks = Inr arr \<Longrightarrow>
   data arr = (if dtype arr = Unicode then map (map np_str) tracks else tracks)
   \<and> (dtype arr = Unicode \<longrightarrow> list_all (list_all is_text) tracks)"
  by (auto simp: np_array_def split: if_splits)

lemma np_str_text: "is_text v \<Longrightarrow> \<exists>s. np_str v = PStr s"
  by (cases v) simp_all

text \<open>
  The rows of the array are the records of items, at most one per item and in order
  of the items.
\<close>

lemma extracted_rows_bounded:
  assumes "get_tracks_from_playlist playlist mood time = Inr arr"
  shows "\<exists>items items'. getitem playlist ''items'' = Inr items \<and> iter items = Inr items'
           \<and> length (data arr) \<le> length items'"
proof -
  from assms obtain items items' tracks where
    items: "getitem playlist ''items'' = Inr items" "iter items = Inr items'"
    and loop: "track_loop time mood items' [] = Inr tracks"
    and arr: "np_array tracks = Inr arr"
    by (auto simp: get_tracks_from_playlist_def and_then_eq_Inr)
  from track_loop_Inr[OF loop] have "length tracks \<le> length items'" by auto
  moreover from np_array_Inr[OF arr] have "length (data arr) = length tracks"
    by (auto split: if_splits)
  ultimately show ?thesis using items by auto
qed

text \<open>An item whose \<^verbatim>\<open>track\<close> is \<^verbatim>\<open>None\<close> is skipped: the other two items give the rows.\<close>

lemma null_track_skipped:
  "get_tracks_from_playlist
     (PDict [(''items'', PList [PDict [(''track'', track_of ''One'' ''t1'' (PInt 55))],
                                PDict [(''track'', PNone)],
                                PDict [(''track'', track_of ''Three'' ''t3'' (PInt 7))]])])
     (Some ''Happy'') None
   = Inr \<lparr>dtype = Unicode,
          data = [[PStr ''One'', PStr ''t1'', PStr ''Ann'', PStr ''a1'', PStr ''LP'', PStr ''b1'',
                   PStr ''55'', PStr ''Happy''],
                  [PStr ''Three'', PStr ''t3'', PStr ''Ann'', PStr ''a1'', PStr ''LP'', PStr ''b1'',
                   PStr ''7'', PStr ''Happy'']]\<rparr>"
  by (simp add: get_tracks_from_playlist_def item_info_def and_then_def track_of_def
      np_array_def label_def str_int_def str_nat.simps rstrip_nul_def)

text \<open>
  C2. A page of three items whose second item has no \<^verbatim>\<open>track\<close> key: the
  specification expects two records, for items 1 and 3. The lookup \<^verbatim>\<open>item['track']\<close> raises \<^verbatim>\<open>KeyError\<close>,
  which \<^verbatim>\<open>except TypeError\<close> does not catch, so the call ends with that exception and
  returns no record.
\<close>

theorem missing_track_key_raises:
  "get_tracks_from_playlist
     (PDict [(''items'', PList [PDict [(''track'', track_of ''One'' ''t1'' (PInt 55))],
                                PDict [(''added_at'', PStr ''2022-07-02'')],
                                PDict [(''track'', track_of ''Three'' ''t3'' (PInt 7))]])])
     (Some ''Happy'') None
   = Inl KeyError"
  by (simp add: get_tracks_from_playlist_def item_info_def and_then_def track_of_def)

text \<open>
  C3. The specification expects every returned record to have all required fields
  non-null and a malformed item to give no record. An item whose containers are present but whose
  \<^verbatim>\<open>id\<close> fields hold \<^verbatim>\<open>None\<close> (a local file in a playlist) raises nothing and is
  returned as a record with null \<^verbatim>\<open>track_id\<close>, \<^verbatim>\<open>artist_id\<close> and \<^verbatim>\<open>album_id\<close>.
\<close>

theorem null_field_kept:
  "get_tracks_from_playlist
     (PDict [(''items'', PList [PDict [(''track'',
        PDict [(''name'', PStr ''Local file''), (''id'', PNone),
               (''artists'', PList [PDict [(''name'', PStr ''Ann''), (''id'', PNone)]]),
               (''album'', PDict [(''name'', PStr ''LP''), (''id'', PNone)]),
               (''popularity'', PInt 0)])]])])
     (Some ''Happy'') None
   = Inr \<lparr>dtype = Object,
          data = [[PStr ''Local file'', PNone, PStr ''Ann'', PNone, PStr ''LP'', PNone,
                   PInt 0, PStr ''Happy'']]\<rparr>"
  by (simp add: get_tracks_from_playlist_def item_info_def and_then_def
      np_array_def label_def)

text \<open>
  C7, as claimed: the popularity of every extracted record is an integer. For a
  well-formed item labelled with a mood every cell is a string or an integer, the
  array is a text array, and the popularity 55 is returned as the string \<^verbatim>\<open>'55'\<close>.
\<close>

theorem popularity_text_counterexample:
  "get_tracks_from_playlist
     (PDict [(''items'', PList [PDict [(''track'', track_of ''One'' ''t1'' (PInt 55))]])])
     (Some ''Happy'') None
   = Inr \<lparr>dtype = Unicode,
          data = [[PStr ''One'', PStr ''t1'', PStr ''Ann'', PStr ''a1'', PStr ''LP'', PStr ''b1'',
                   PStr ''55'', PStr ''Happy'']]\<rparr>
   \<and> \<not> is_int (PStr ''55'')"
  by (simp add: get_tracks_from_playlist_def item_info_def and_then_def track_of_def
      np_array_def label_def str_int_def str_nat.simps rstrip_nul_def)

text \<open>
  The records of a page, one for each item that raises nothing, in the order of the
  items: record \<open>k\<close> of the list comes from the \<open>k\<close>-th such item.
\<close>

lemma track_loop_records:
  "track_loop time mood items tracks = Inr result \<Longrightarrow>
   result = tracks @ map (\<lambda>item. projr (item_info time mood item))
                       (filter (\<lambda>item. \<not> isl (item_info time mood item)) items)"
proof (induction items arbitrary: tracks)
  case Nil
  then show ?case by simp
next
  case (Cons item items)
  show ?case
  proof (cases "item_info time mood item")
    case (Inr info)
    with Cons.prems have "track_loop time mood items (tracks @ [info]) = Inr result" by simp
    from Cons.IH[OF this] Inr show ?thesis by simp
  next
    case (Inl e)
    with Cons.prems have "track_loop time mood items tracks = Inr result"
      by (cases e) simp_all
    from Cons.IH[OF this] Inl show ?thesis by simp
  qed
qed

lemma extraction_rows:
  assumes "get_tracks_from_playlist playlist mood time = Inr arr"
  shows "\<exists>items items'.
      getitem playlist ''items'' = Inr items \<and> iter items = Inr items'
    \<and> length (data arr) = length (filter (\<lambda>item. \<not> isl (item_info time mood item)) items')
    \<and> (\<forall>k<length (filter (\<lambda>item. \<not> isl (item_info time mood item)) items').
           \<exists>info. item_info time mood
                     (filter (\<lambda>item. \<not> isl (item_info time mood item)) items' ! k) = Inr info
                \<and> data arr ! k = (if dtype arr = Unicode then map np_str info else info)
                \<and> (dtype arr = Unicode \<longrightarrow> list_all is_text info))"
proof -
  from assms obtain items items' tracks where
    items: "getitem playlist ''items'' = Inr items" "iter items = Inr items'"
    and loop: "track_loop time mood items' [] = Inr tracks"
    and arr: "np_array tracks = Inr arr"
    by (auto simp: get_tracks_from_playlist_def and_then_eq_Inr)
  let ?kept = "filter (\<lambda>item. \<not> isl (item_info time mood item)) items'"
  from track_loop_records[OF loop] have
    tracks: "tracks = map (\<lambda>item. projr (item_info time mood item)) ?kept" by simp
  from np_array_Inr[OF arr] have
    stored: "data arr = (if dtype arr = Unicode then map (map np_str) tracks else tracks)"
    and all_text: "dtype arr = Unicode \<longrightarrow> list_all (list_all is_text) tracks" by simp_all
  from stored tracks have len: "length (data arr) = length ?kept"
    by (simp split: if_splits)
  have row: "\<exists>info. item_info time mood (?kept ! k) = Inr info
                \<and> data arr ! k = (if dtype arr = Unicode then map np_str info else info)
                \<and> (dtype arr = Unicode \<longrightarrow> list_all is_text info)" if k: "k < length ?kept" for k
  proof -
    from k have "?kept ! k \<in> set ?kept" by (rule nth_mem)
    then have "\<not> isl (item_info time mood (?kept ! k))" by simp
    then obtain info where info: "item_info time mood (?kept ! k) = Inr info"
      by (cases "item_info time mood (?kept ! k)") auto
    with tracks k have tk: "tracks ! k = info" by simp
    with stored tracks k have "data arr ! k = (if dtype arr = Unicode then map np_str info else info)"
      by (simp split: if_splits)
    moreover from all_text tracks k tk have "dtype arr = Unicode \<longrightarrow> list_all is_text info"
      by (auto simp: list_all_length)
    ultimately show ?thesis using info by blast
  qed
  from items len row show ?thesis by blast
qed

text \<open>
  C7, amended. Every field of every extracted record is the value read from the item
  the record was made of (record \<open>k\<close> comes from the \<open>k\<close>-th item that raises nothing),
  as the returned array stores it. In a text array every field is a string, so the
  popularity is never an integer there: it is the decimal digits of the item's integer.
  In any other array every field is the item's value unchanged, so the popularity is
  an integer whenever the item's popularity is one.
\<close>

theorem record_fields_as_stored:
  assumes "get_tracks_from_playlist playlist mood time = Inr arr"
  shows "\<exists>items items' kept.
           getitem playlist ''items'' = Inr items \<and> iter items = Inr items'
         \<and> kept = filter (\<lambda>item. \<not> isl (item_info time mood item)) items'
         \<and> length (data arr) = length kept
         \<and> (\<forall>k<length kept. \<exists>info track popularity.
               item_info time mood (kept ! k) = Inr info
             \<and> data arr ! k = (if dtype arr = Unicode then map np_str info else info)
             \<and> (dtype arr = Unicode \<longrightarrow> (\<forall>cell \<in> set (data arr ! k). \<exists>s. cell = PStr s))
             \<and> (case time of None \<Rightarrow> getitem (kept ! k) ''track'' | Some t \<Rightarrow> Inr (kept ! k))
                 = Inr track
             \<and> getitem track ''popularity'' = Inr popularity
             \<and> data arr ! k ! 6 = (if dtype arr = Unicode then np_str popularity else popularity)
             \<and> (dtype arr = Unicode \<longrightarrow> \<not> is_int (data arr ! k ! 6))
             \<and> (\<forall>i. popularity = PInt i \<longrightarrow>
                   data arr ! k ! 6 = (if dtype arr = Unicode then PStr (str_int i) else PInt i)))"
proof -
  from extraction_rows[OF assms] obtain items items' where
    items: "getitem playlist ''items'' = Inr items" "iter items = Inr items'"
    and len: "length (data arr) = length (filter (\<lambda>item. \<not> isl (item_info time mood item)) items')"
    and row: "\<forall>k<length (filter (\<lambda>item. \<not> isl (item_info time mood item)) items').
           \<exists>info. item_info time mood
                     (filter (\<lambda>item. \<not> isl (item_info time mood item)) items' ! k) = Inr info
                \<and> data arr ! k = (if dtype arr = Unicode then map np_str info else info)
                \<and> (dtype arr = Unicode \<longrightarrow> list_all is_text info)"
    by blast
  let ?kept = "filter (\<lambda>item. \<not> isl (item_info time mood item)) items'"
  have "\<exists>info track popularity.
               item_info time mood (?kept ! k) = Inr info
             \<and> data arr ! k = (if dtype arr = Unicode then map np_str info else info)
             \<and> (dtype arr = Unicode \<longrightarrow> (\<forall>cell \<in> set (data arr ! k). \<exists>s. cell = PStr s))
             \<and> (case time of None \<Rightarrow> getitem (?kept ! k) ''track'' | Some t \<Rightarrow> Inr (?kept ! k))
                 = Inr track
             \<and> getitem track ''popularity'' = Inr popularity
             \<and> data arr ! k ! 6 = (if dtype arr = Unicode then np_str popularity else popularity)
             \<and> (dtype arr = Unicode \<longrightarrow> \<not> is_int (data arr ! k ! 6))
             \<and> (\<forall>i. popularity = PInt i \<longrightarrow>
                   data arr ! k ! 6 = (if dtype arr = Unicode then PStr (str_int i) else PInt i))"
    if k: "k < length ?kept" for k
  proof -
    from row k obtain info where
      info: "item_info time mood (?kept ! k) = Inr info"
      and stored: "data arr ! k = (if dtype arr = Unicode then map np_str info else info)"
      and all_text: "dtype arr = Unicode \<longrightarrow> list_all is_text info" by blast
    have strings: "\<forall>cell \<in> set (data arr ! k). \<exists>s. cell = PStr s" if u: "dtype arr = Unicode"
    proof
      fix cell assume "cell \<in> set (data arr ! k)"
      with stored u obtain v where "v \<in> set info" "cell = np_str v" by auto
      with all_text u np_str_text[of v] show "\<exists>s. cell = PStr s"
        by (auto simp: list_all_iff)
    qed
    have "\<exists>track popularity.
            (case time of None \<Rightarrow> getitem (?kept ! k) ''track'' | Some t \<Rightarrow> Inr (?kept ! k)) = Inr track
          \<and> getitem track ''popularity'' = Inr popularity \<and> info ! 6 = popularity \<and> 6 < length info"
    proof (cases time)
      case None
      with info show ?thesis by (auto elim!: item_info_None_Inr)
    next
      case (Some t)
      with info show ?thesis by (auto elim!: item_info_Some_Inr)
    qed
    then obtain track popularity where
      tp: "(case time of None \<Rightarrow> getitem (?kept ! k) ''track'' | Some t \<Rightarrow> Inr (?kept ! k)) = Inr track"
          "getitem track ''popularity'' = Inr popularity" "info ! 6 = popularity" "6 < length info"
      by blast
    from stored tp(3,4) have
      cell6: "data arr ! k ! 6 = (if dtype arr = Unicode then np_str popularity else popularity)"
      by auto
    have not_int: "\<not> is_int (data arr ! k ! 6)" if u: "dtype arr = Unicode"
    proof -
      from stored u tp(4) have "data arr ! k ! 6 \<in> set (data arr ! k)" by simp
      with strings[OF u] show ?thesis by auto
    qed
    from cell6 have digits: "\<forall>i. popularity = PInt i \<longrightarrow>
        data arr ! k ! 6 = (if dtype arr = Unicode then PStr (str_int i) else PInt i)"
      by auto
    from info stored strings tp(1,2) cell6 not_int digits show ?thesis by blast
  qed
  with items len show ?thesis by blast
qed

theorem record_fields_as_stored_witness:
  "get_tracks_from_playlist top_page None (Some ''short_term'') = Inr top_array
   \<and> (\<exists>items items' kept.
           getitem top_page ''items'' = Inr items \<and> iter items = Inr items'
         \<and> kept = filter (\<lambda>item. \<not> isl (item_info (Some ''short_term'') None item)) items'
         \<and> length (data top_array) = length kept
         \<and> (\<forall>k<length kept. \<exists>info track popularity.
               item_info (Some ''short_term'') None (kept ! k) = Inr info
             \<and> data top_array ! k = (if dtype top_array = Unicode then map np_str info else info)
             \<and> (dtype top_array = Unicode
                  \<longrightarrow> (\<forall>cell \<in> set (data top_array ! k). \<exists>s. cell = PStr s))
             \<and> (case Some ''short_term'' of None \<Rightarrow> getitem (kept ! k) ''track''
                 | Some t \<Rightarrow> Inr (kept ! k)) = Inr track
             \<and> getitem track ''popularity'' = Inr popularity
             \<and> data top_array ! k ! 6
                 = (if dtype top_array = Unicode then np_str popularity else popularity)
             \<and> (dtype top_array = Unicode \<longrightarrow> \<not> is_int (data top_array ! k ! 6))
             \<and> (\<forall>i. popularity = PInt i \<longrightarrow>
                   data top_array ! k ! 6
                   = (if dtype top_array = Unicode then PStr (str_int i) else PInt i))))
   \<and> length (data top_array) = 2
   \<and> is_int (data top_array ! 0 ! 6) \<and> is_int (data top_array ! 1 ! 6)"
proof (intro conjI)
  show h: "get_tracks_from_playlist top_page None (Some ''short_term'') = Inr top_array"
    by (simp add: get_tracks_from_playlist_def item_info_def and_then_def track_of_def
        np_array_def label_def top_page_def top_array_def)
  from record_fields_as_stored[OF h] show "\<exists>items items' kept.
           getitem top_page ''items'' = Inr items \<and> iter items = Inr items'
         \<and> kept = filter (\<lambda>item. \<not> isl (item_info (Some ''short_term'') None item)) items'
         \<and> length (data top_array) = length kept
         \<and> (\<forall>k<length kept. \<exists>info track popularity.
               item_info (Some ''short_term'') None (kept ! k) = Inr info
             \<and> data top_array ! k = (if dtype top_array = Unicode then map np_str info else info)
             \<and> (dtype top_array = Unicode
                  \<longrightarrow> (\<forall>cell \<in> set (data top_array ! k). \<exists>s. cell = PStr s))
             \<and> (case Some ''short_term'' of None \<Rightarrow> getitem (kept ! k) ''track''
                 | Some t \<Rightarrow> Inr (kept ! k)) = Inr track
             \<and> getitem track ''popularity'' = Inr popularity
             \<and> data top_array ! k ! 6
                 = (if dtype top_array = Unicode then np_str popularity else popularity)
             \<and> (dtype top_array = Unicode \<longrightarrow> \<not> is_int (data top_array ! k ! 6))
             \<and> (\<forall>i. popularity = PInt i \<longrightarrow>
                   data top_array ! k ! 6
                   = (if dtype top_array = Unicode then PStr (str_int i) else PInt i)))" .
  show "length (data top_array) = 2" by (simp add: top_array_def)
  show "is_int (data top_array ! 0 ! 6)" by (simp add: top_array_def)
  show "is_int (data top_array ! 1 ! 6)" by (simp add: top_array_def)
qed

lemma item_info_first_artist_Some:
  assumes "\<forall>key. key \<noteq> ''artists'' \<longrightarrow> getitem track' key = getitem track key"
    and "getitem track ''artists'' = Inr (PList (a # rest))"
    and "getitem track' ''artists'' = Inr (PList (a # rest'))"
  shows "item_info (Some t) mood track' = item_info (Some t) mood track"
proof -
  from assms(1) have "getitem track' ''name'' = getitem track ''name''"
    "getitem track' ''id'' = getitem track ''id''"
    "getitem track' ''album'' = getitem track ''album''"
    "getitem track' ''popularity'' = getitem track ''popularity''" by simp_all
  with assms(2,3) show ?thesis
    unfolding item_info_def by (simp add: and_then_Inr del: getitem.simps)
qed

lemma item_info_first_artist_None:
  assumes "getitem item ''track'' = Inr track" and "getitem item' ''track'' = Inr track'"
    and "\<forall>key. key \<noteq> ''artists'' \<longrightarrow> getitem track' key = getitem track key"
    and "getitem track ''artists'' = Inr (PList (a # rest))"
    and "getitem track' ''artists'' = Inr (PList (a # rest'))"
  shows "item_info None mood item' = item_info None mood item"
proof -
  from assms(3) have "getitem track' ''name'' = getitem track ''name''"
    "getitem track' ''id'' = getitem track ''id''"
    "getitem track' ''album'' = getitem track ''album''"
    "getitem track' ''popularity'' = getitem track ''popularity''" by simp_all
  with assms(1,2,4,5) show ?thesis
    unfolding item_info_def by (simp add: and_then_Inr del: getitem.simps)
qed

lemma page_cong:
  assumes "getitem playlist ''items'' = Inr (PList (xs @ item # ys))"
    and "getitem playlist' ''items'' = Inr (PList (xs @ item' # ys))"
    and "item_info time mood item' = item_info time mood item"
  shows "get_tracks_from_playlist playlist' mood time = get_tracks_from_playlist playlist mood time"
proof -
  from assms(3) have "track_loop time mood (xs @ item' # ys) []
                    = track_loop time mood (xs @ item # ys) []"
    by (intro track_loop_cong) simp
  with assms(1,2) show ?thesis
    unfolding get_tracks_from_playlist_def by (simp add: and_then_Inr)
qed

text \<open>
  C8. In every returned record the artist name and artist id are the name and id of the
  first element of the item's artist list, as the array stores them, in both input
  shapes (record \<open>k\<close> comes from the \<open>k\<close>-th item that raises nothing). The artists
  listed after the first are discarded: two pages that differ only in what one item
  lists after its first artist give the same result.
\<close>

theorem first_artist_only:
  assumes "get_tracks_from_playlist playlist mood time = Inr arr"
  shows "(\<exists>items items' kept.
            getitem playlist ''items'' = Inr items \<and> iter items = Inr items'
          \<and> kept = filter (\<lambda>item. \<not> isl (item_info time mood item)) items'
          \<and> length (data arr) = length kept
          \<and> (\<forall>k<length kept. \<exists>track artists artist artist_name artist_id.
                (case time of None \<Rightarrow> getitem (kept ! k) ''track'' | Some t \<Rightarrow> Inr (kept ! k))
                  = Inr track
              \<and> getitem track ''artists'' = Inr artists
              \<and> getitem0 artists = Inr artist
              \<and> (\<forall>a rest. artists = PList (a # rest) \<longrightarrow> artist = a)
              \<and> getitem artist ''name'' = Inr artist_name
              \<and> getitem artist ''id'' = Inr artist_id
              \<and> data arr ! k ! 2 = (if dtype arr = Unicode then np_str artist_name else artist_name)
              \<and> data arr ! k ! 3 = (if dtype arr = Unicode then np_str artist_id else artist_id)))
       \<and> (\<forall>playlist' xs ys item item' track track' a rest rest'.
            getitem playlist ''items'' = Inr (PList (xs @ item # ys))
          \<and> getitem playlist' ''items'' = Inr (PList (xs @ item' # ys))
          \<and> (case time of None \<Rightarrow> getitem item ''track'' | Some t \<Rightarrow> Inr item) = Inr track
          \<and> (case time of None \<Rightarrow> getitem item' ''track'' | Some t \<Rightarrow> Inr item') = Inr track'
          \<and> (\<forall>key. key \<noteq> ''artists'' \<longrightarrow> getitem track' key = getitem track key)
          \<and> getitem track ''artists'' = Inr (PList (a # rest))
          \<and> getitem track' ''artists'' = Inr (PList (a # rest'))
          \<longrightarrow> get_tracks_from_playlist playlist' mood time = Inr arr)"
proof (rule conjI)
  from extraction_rows[OF assms] obtain items items' where
    items: "getitem playlist ''items'' = Inr items" "iter items = Inr items'"
    and len: "length (data arr) = length (filter (\<lambda>item. \<not> isl (item_info time mood item)) items')"
    and row: "\<forall>k<length (filter (\<lambda>item. \<not> isl (item_info time mood item)) items').
           \<exists>info. item_info time mood
                     (filter (\<lambda>item. \<not> isl (item_info time mood item)) items' ! k) = Inr info
                \<and> data arr ! k = (if dtype arr = Unicode then map np_str info else info)
                \<and> (dtype arr = Unicode \<longrightarrow> list_all is_text info)"
    by blast
  let ?kept = "filter (\<lambda>item. \<not> isl (item_info time mood item)) items'"
  have "\<exists>track artists artist artist_name artist_id.
                (case time of None \<Rightarrow> getitem (?kept ! k) ''track'' | Some t \<Rightarrow> Inr (?kept ! k))
                  = Inr track
              \<and> getitem track ''artists'' = Inr artists
              \<and> getitem0 artists = Inr artist
              \<and> (\<forall>a rest. artists = PList (a # rest) \<longrightarrow> artist = a)
              \<and> getitem artist ''name'' = Inr artist_name
              \<and> getitem artist ''id'' = Inr artist_id
              \<and> data arr ! k ! 2 = (if dtype arr = Unicode then np_str artist_name else artist_name)
              \<and> data arr ! k ! 3 = (if dtype arr = Unicode then np_str artist_id else artist_id)"
    if k: "k < length ?kept" for k
  proof -
    from row k obtain info where
      info: "item_info time mood (?kept ! k) = Inr info"
      and stored: "data arr ! k = (if dtype arr = Unicode then map np_str info else info)"
      by blast
    have "\<exists>track artists artist artist_name artist_id.
            (case time of None \<Rightarrow> getitem (?kept ! k) ''track'' | Some t \<Rightarrow> Inr (?kept ! k))
              = Inr track
          \<and> getitem track ''artists'' = Inr artists
          \<and> getitem0 artists = Inr artist
          \<and> getitem artist ''name'' = Inr artist_name
          \<and> getitem artist ''id'' = Inr artist_id
          \<and> info ! 2 = artist_name \<and> info ! 3 = artist_id \<and> 3 < length info"
    proof (cases time)
      case None
      with info have "item_info None mood (?kept ! k) = Inr info" by simp
      then show ?thesis
      proof (rule item_info_None_Inr)
        fix track track_name track_id artists artist artist_name artist_id
          album album_name album_id popularity
        assume "getitem (?kept ! k) ''track'' = Inr track"
          "getitem track ''artists'' = Inr artists" "getitem0 artists = Inr artist"
          "getitem artist ''name'' = Inr artist_name" "getitem artist ''id'' = Inr artist_id"
          "info = [track_name, track_id, artist_name, artist_id,
                   album_name, album_id, popularity, label mood]"
        with None show ?thesis by simp
      qed
    next
      case (Some t)
      with info have "item_info (Some t) mood (?kept ! k) = Inr info" by simp
      then show ?thesis
      proof (rule item_info_Some_Inr)
        fix track_name track_id artists artist artist_name artist_id
          album album_name album_id popularity
        assume "getitem (?kept ! k) ''artists'' = Inr artists" "getitem0 artists = Inr artist"
          "getitem artist ''name'' = Inr artist_name" "getitem artist ''id'' = Inr artist_id"
          "info = [track_name, track_id, artist_name, artist_id,
                   album_name, album_id, popularity, label mood, PStr t]"
        with Some show ?thesis by simp
      qed
    qed
    then obtain track artists artist artist_name artist_id where
      f: "(case time of None \<Rightarrow> getitem (?kept ! k) ''track'' | Some t \<Rightarrow> Inr (?kept ! k))
              = Inr track"
         "getitem track ''artists'' = Inr artists"
         "getitem0 artists = Inr artist"
         "getitem artist ''name'' = Inr artist_name"
         "getitem artist ''id'' = Inr artist_id"
         "info ! 2 = artist_name" "info ! 3 = artist_id" "3 < length info"
      by blast
    from f(3) have head: "\<forall>a rest. artists = PList (a # rest) \<longrightarrow> artist = a" by auto
    from stored f(6,7,8) have
      "data arr ! k ! 2 = (if dtype arr = Unicode then np_str artist_name else artist_name)"
      "data arr ! k ! 3 = (if dtype arr = Unicode then np_str artist_id else artist_id)"
      by auto
    with f(1-5) head show ?thesis by blast
  qed
  with items len show "\<exists>items items' kept.
            getitem playlist ''items'' = Inr items \<and> iter items = Inr items'
          \<and> kept = filter (\<lambda>item. \<not> isl (item_info time mood item)) items'
          \<and> length (data arr) = length kept
          \<and> (\<forall>k<length kept. \<exists>track artists artist artist_name artist_id.
                (case time of None \<Rightarrow> getitem (kept ! k) ''track'' | Some t \<Rightarrow> Inr (kept ! k))
                  = Inr track
              \<and> getitem track ''artists'' = Inr artists
              \<and> getitem0 artists = Inr artist
              \<and> (\<forall>a rest. artists = PList (a # rest) \<longrightarrow> artist = a)
              \<and> getitem artist ''name'' = Inr artist_name
              \<and> getitem artist ''id'' = Inr artist_id
              \<and> data arr ! k ! 2 = (if dtype arr = Unicode then np_str artist_name else artist_name)
              \<and> data arr ! k ! 3 = (if dtype arr = Unicode then np_str artist_id else artist_id))"
    by blast
next
  show "\<forall>playlist' xs ys item item' track track' a rest rest'.
            getitem playlist ''items'' = Inr (PList (xs @ item # ys))
          \<and> getitem playlist' ''items'' = Inr (PList (xs @ item' # ys))
          \<and> (case time of None \<Rightarrow> getitem item ''track'' | Some t \<Rightarrow> Inr item) = Inr track
          \<and> (case time of None \<Rightarrow> getitem item' ''track'' | Some t \<Rightarrow> Inr item') = Inr track'
          \<and> (\<forall>key. key \<noteq> ''artists'' \<longrightarrow> getitem track' key = getitem track key)
          \<and> getitem track ''artists'' = Inr (PList (a # rest))
          \<and> getitem track' ''artists'' = Inr (PList (a # rest'))
          \<longrightarrow> get_tracks_from_playlist playlist' mood time = Inr arr"
  proof (intro allI impI, elim conjE)
    fix playlist' xs ys item item' track track' a rest rest'
    assume p: "getitem playlist ''items'' = Inr (PList (xs @ item # ys))"
      and p': "getitem playlist' ''items'' = Inr (PList (xs @ item' # ys))"
      and t: "(case time of None \<Rightarrow> getitem item ''track'' | Some t \<Rightarrow> Inr item) = Inr track"
      and t': "(case time of None \<Rightarrow> getitem item' ''track'' | Some t \<Rightarrow> Inr item') = Inr track'"
      and same: "\<forall>key. key \<noteq> ''artists'' \<longrightarrow> getitem track' key = getitem track key"
      and a: "getitem track ''artists'' = Inr (PList (a # rest))"
      and a': "getitem track' ''artists'' = Inr (PList (a # rest'))"
    have "item_info time mood item' = item_info time mood item"
    proof (cases time)
      case None
      with t t' have "getitem item ''track'' = Inr track" "getitem item' ''track'' = Inr track'"
        by simp_all
      from item_info_first_artist_None[OF this same a a'] None show ?thesis by simp
    next
      case (Some s)
      with t t' have "item = track" "item' = track'" by simp_all
      with item_info_first_artist_Some[OF same a a'] Some show ?thesis by simp
    qed
    from page_cong[OF p p' this] assms
    show "get_tracks_from_playlist playlist' mood time = Inr arr" by simp
  qed
qed

theorem first_artist_only_witness:
  "get_tracks_from_playlist mood_page (Some ''Happy'') None = Inr mood_array
   \<and> get_tracks_from_playlist mood_page_first (Some ''Happy'') None = Inr mood_array
   \<and> data mood_array ! 0 ! 2 = PStr ''Ann'' \<and> data mood_array ! 0 ! 3 = PStr ''a1''
   \<and> getitem0 (PList [PDict [(''name'', PStr ''Ann''), (''id'', PStr ''a1'')],
                       PDict [(''name'', PStr ''Bob''), (''id'', PStr ''a2'')]])
     = Inr (PDict [(''name'', PStr ''Ann''), (''id'', PStr ''a1'')])"
proof -
  have h: "get_tracks_from_playlist mood_page (Some ''Happy'') None = Inr mood_array"
    by (simp add: get_tracks_from_playlist_def item_info_def and_then_def track_of_def
        np_array_def label_def str_int_def str_nat.simps rstrip_nul_def
        mood_page_def mood_array_def)
  define ann where "ann = PDict [(''name'', PStr ''Ann''), (''id'', PStr ''a1'')]"
  define bob where "bob = PDict [(''name'', PStr ''Bob''), (''id'', PStr ''a2'')]"
  define two where "two = track_of ''One'' ''t1'' (PInt 55)"
  define one where "one = PDict [(''name'', PStr ''One''), (''id'', PStr ''t1''),
              (''artists'', PList [ann]),
              (''album'', PDict [(''name'', PStr ''LP''), (''id'', PStr ''b1'')]),
              (''popularity'', PInt 55)]"
  have p: "getitem mood_page ''items'' = Inr (PList ([] @ PDict [(''track'', two)] # []))"
    by (simp add: mood_page_def two_def)
  have p': "getitem mood_page_first ''items'' = Inr (PList ([] @ PDict [(''track'', one)] # []))"
    by (simp add: mood_page_first_def one_def ann_def)
  have t: "(case None :: string option of None \<Rightarrow> getitem (PDict [(''track'', two)]) ''track''
            | Some t \<Rightarrow> Inr (PDict [(''track'', two)])) = Inr two"
    by simp
  have t': "(case None :: string option of None \<Rightarrow> getitem (PDict [(''track'', one)]) ''track''
            | Some t \<Rightarrow> Inr (PDict [(''track'', one)])) = Inr one"
    by simp
  have same: "\<forall>key. key \<noteq> ''artists'' \<longrightarrow> getitem one key = getitem two key"
    by (simp add: one_def two_def track_of_def)
  have a: "getitem two ''artists'' = Inr (PList (ann # [bob]))"
    by (simp add: two_def track_of_def ann_def bob_def)
  have a': "getitem one ''artists'' = Inr (PList (ann # []))"
    by (simp add: one_def)
  from p p' t t' same a a' have prem:
    "getitem mood_page ''items'' = Inr (PList ([] @ PDict [(''track'', two)] # []))
     \<and> getitem mood_page_first ''items'' = Inr (PList ([] @ PDict [(''track'', one)] # []))
     \<and> (case None :: string option of None \<Rightarrow> getitem (PDict [(''track'', two)]) ''track''
            | Some t \<Rightarrow> Inr (PDict [(''track'', two)])) = Inr two
     \<and> (case None :: string option of None \<Rightarrow> getitem (PDict [(''track'', one)]) ''track''
            | Some t \<Rightarrow> Inr (PDict [(''track'', one)])) = Inr one
     \<and> (\<forall>key. key \<noteq> ''artists'' \<longrightarrow> getitem one key = getitem two key)
     \<and> getitem two ''artists'' = Inr (PList (ann # [bob]))
     \<and> getitem one ''artists'' = Inr (PList (ann # []))"
    by (intro conjI)
  from first_artist_only[OF h, THEN conjunct2, rule_format, OF prem]
  have "get_tracks_from_playlist mood_page_first (Some ''Happy'') None = Inr mood_array" .
  with h show ?thesis by (simp add: mood_array_def)
qed

section \<open>Properties of genre augmentation\<close>

lemma col_index_None: "col_index c cs = None \<longleftrightarrow> c \<notin> set cs"
  by (induction cs) auto

lemma col_index_Some: "col_index c cs = Some j \<Longrightarrow> j < length cs \<and> cs ! j = c"
  by (induction cs arbitrary: j) (auto split: if_splits)

lemma col_index_append: "c \<notin> set cs \<Longrightarrow> col_index c (cs @ [c]) = Some (length cs)"
  by (induction cs) auto

lemma genres_loop_Inr:
  "genres_loop sp i ids genres = Inr result \<Longrightarrow>
   \<exists>new. result = genres @ new \<and> length new = length ids \<and>
     (\<forall>k<length ids. \<exists>artist. sp (i + k) (ids ! k) = Inr artist
                        \<and> getitem artist ''genres'' = Inr (new ! k))"
proof (induction ids arbitrary: i genres)
  case Nil
  then show ?case by simp
next
  case (Cons aid ids)
  from Cons.prems obtain artist g where
    step: "sp i aid = Inr artist" "getitem artist ''genres'' = Inr g"
    and rest: "genres_loop sp (Suc i) ids (genres @ [g]) = Inr result"
    by (auto simp: and_then_eq_Inr)
  from Cons.IH[OF rest] obtain new where
    new: "result = (genres @ [g]) @ new" "length new = length ids"
      "\<forall>k<length ids. \<exists>artist. sp (Suc i + k) (ids ! k) = Inr artist
                        \<and> getitem artist ''genres'' = Inr (new ! k)"
    by blast
  have "\<exists>artist. sp (i + k) ((aid # ids) ! k) = Inr artist
          \<and> getitem artist ''genres'' = Inr ((g # new) ! k)" if "k < length (aid # ids)" for k
  proof (cases k)
    case 0
    with step show ?thesis by simp
  next
    case (Suc k')
    with that new(3) show ?thesis by auto
  qed
  with new(1,2) show ?case
    by (intro exI[of _ "g # new"]) simp
qed

lemma count_list_distinct: "distinct cs \<Longrightarrow> c \<in> set cs \<Longrightarrow> count_list cs c = 1"
  by (induction cs) (auto simp: count_list_0_iff)

lemma df_getitem_distinct:
  assumes "distinct (columns df)" and "df_getitem df c = Inr ids"
  shows "\<exists>j. col_index c (columns df) = Some j \<and> ids = map (\<lambda>r. r ! j) (rows df)"
proof -
  from assms(2) obtain j where j: "col_index c (columns df) = Some j"
    by (auto simp: df_getitem_def split: option.splits)
  from col_index_Some[OF j] have "c \<in> set (columns df)" by auto
  with assms(1) have "count_list (columns df) c = 1" by (rule count_list_distinct)
  with assms(2) j show ?thesis by (simp add: df_getitem_def)
qed

lemma set_cells_absent: "c \<notin> set cs \<Longrightarrow> set_cells c cs j v r = r"
  by (induction cs arbitrary: j r) auto

lemma set_cells_distinct:
  "distinct cs \<Longrightarrow> col_index c cs = Some k \<Longrightarrow> set_cells c cs j v r = r[j + k := v]"
proof (induction cs arbitrary: j k r)
  case Nil
  then show ?case by simp
next
  case (Cons x cs)
  show ?case
  proof (cases "x = c")
    case True
    with Cons.prems have "k = 0" "c \<notin> set cs" by auto
    with True show ?thesis by (simp add: set_cells_absent)
  next
    case False
    with Cons.prems obtain k' where k': "col_index c cs = Some k'" "k = Suc k'" by auto
    from Cons.prems have "distinct cs" by simp
    from Cons.IH[OF this k'(1)] False k'(2) show ?thesis by simp
  qed
qed

text \<open>
  The assignment \<^verbatim>\<open>df[c] = vals\<close> on a table whose labels are pairwise distinct, for
  one value per row: the column \<open>c\<close> is overwritten, or added as the last one.
\<close>

lemma df_setitem_distinct:
  assumes "distinct (columns df)" and "length vals = length (rows df)"
  shows "df_setitem df c vals =
           Inr (case col_index c (columns df) of
                  Some j \<Rightarrow> df\<lparr>rows := map2 (\<lambda>r v. r[j := v]) (rows df) vals\<rparr>
                | None \<Rightarrow> \<lparr>columns = columns df @ [c],
                           rows = map2 (\<lambda>r v. r @ [v]) (rows df) vals\<rparr>)"
proof -
  from assms(2) have rs: "(if rows df = []
                then replicate (length vals) (replicate (length (columns df)) PNone)
                else rows df) = rows df" by auto
  show ?thesis
  proof (cases "col_index c (columns df)")
    case None
    with assms(2) show ?thesis
      unfolding df_setitem_def rs by simp
  next
    case (Some j)
    from set_cells_distinct[OF assms(1) Some, of 0] have
      "(\<lambda>r v. set_cells c (columns df) 0 v r) = (\<lambda>r v. r[j := v])" by (intro ext) simp
    with Some assms(2) show ?thesis
      unfolding df_setitem_def rs by simp
  qed
qed

lemma map2_nth_append:
  "length vals = length rs \<Longrightarrow> list_all (\<lambda>r. length r = n) rs \<Longrightarrow>
   map (\<lambda>r. r ! n) (map2 (\<lambda>r v. r @ [v]) rs vals) = vals"
  by (induction rs vals rule: list_induct2') auto

lemma map2_nth_update:
  "length vals = length rs \<Longrightarrow> list_all (\<lambda>r. length r = n) rs \<Longrightarrow> j < n \<Longrightarrow>
   map (\<lambda>r. r ! j) (map2 (\<lambda>r v. r[j := v]) rs vals) = vals"
  by (induction rs vals rule: list_induct2') auto

lemma getitem_setitem:
  assumes "well_formed df" and "distinct (columns df)" and "length vals = length (rows df)"
  shows "\<exists>df'. df_setitem df c vals = Inr df' \<and> df_getitem df' c = Inr vals"
proof (cases "col_index c (columns df)")
  case None
  then have absent: "c \<notin> set (columns df)" by (simp add: col_index_None)
  then have "count_list (columns df @ [c]) c = 1" by (simp add: count_list_0_iff)
  with None absent assms show ?thesis
    by (simp add: df_setitem_distinct df_getitem_def col_index_append well_formed_def
        map2_nth_append del: map_map)
next
  case (Some j)
  from col_index_Some[OF Some] have j: "j < length (columns df)" "c \<in> set (columns df)" by auto
  with assms(2) have "count_list (columns df) c = 1" by (simp add: count_list_distinct)
  with Some j assms show ?thesis
    by (simp add: df_setitem_distinct df_getitem_def well_formed_def map2_nth_update del: map_map)
qed

text \<open>
  C6. For a table with pairwise distinct column labels: when \<^verbatim>\<open>add_genres\<close> returns,
  the column \<^verbatim>\<open>genres\<close> has one entry per row of the input table, and entry \<open>i\<close> is
  the \<^verbatim>\<open>genres\<close> field of the answer to request \<open>i\<close>, which asked for the artist id
  in row \<open>i\<close> of the input table.
\<close>

theorem genres_aligned:
  assumes "well_formed df" and "distinct (columns df)"
    and "add_genres sp df artist_id = Inr df'"
  shows "\<exists>j genres. col_index artist_id (columns df) = Some j
         \<and> df_getitem df' ''genres'' = Inr genres
         \<and> length genres = length (rows df)
         \<and> (\<forall>i<length (rows df). \<exists>artist. sp i (rows df ! i ! j) = Inr artist
                                 \<and> getitem artist ''genres'' = Inr (genres ! i))"
proof -
  from assms(3) obtain ids genres where
    ids: "df_getitem df artist_id = Inr ids"
    and loop: "genres_loop sp 0 ids [] = Inr genres"
    and df': "df_setitem df ''genres'' genres = Inr df'"
    by (auto simp: add_genres_def and_then_eq_Inr)
  from df_getitem_distinct[OF assms(2) ids] obtain j where
    j: "col_index artist_id (columns df) = Some j" "ids = map (\<lambda>r. r ! j) (rows df)" by blast
  from j(2) have len: "length ids = length (rows df)" by simp
  from genres_loop_Inr[OF loop] len have
    g: "length genres = length (rows df)"
       "\<forall>k<length (rows df). \<exists>artist. sp k (ids ! k) = Inr artist
                        \<and> getitem artist ''genres'' = Inr (genres ! k)"
    by auto
  from g(2) j(2) have aligned:
    "\<forall>i<length (rows df). \<exists>artist. sp i (rows df ! i ! j) = Inr artist
                        \<and> getitem artist ''genres'' = Inr (genres ! i)"
    by simp
  from getitem_setitem[OF assms(1,2) g(1), of "''genres''"] df'
  have "df_getitem df' ''genres'' = Inr genres" by auto
  with j(1) g(1) aligned show ?thesis by blast
qed

theorem genres_aligned_witness:
  "well_formed genres_table \<and> distinct (columns genres_table)
   \<and> add_genres genres_service genres_table ''artist_id'' = Inr genres_result
   \<and> (\<exists>j genres. col_index ''artist_id'' (columns genres_table) = Some j
         \<and> df_getitem genres_result ''genres'' = Inr genres
         \<and> length genres = length (rows genres_table)
         \<and> (\<forall>i<length (rows genres_table).
               \<exists>artist. genres_service i (rows genres_table ! i ! j) = Inr artist
                      \<and> getitem artist ''genres'' = Inr (genres ! i)))
   \<and> df_getitem genres_result ''genres''
     = Inr [PList [PStr ''a1'', PInt 0], PList [PStr ''a2'', PInt 1]]"
proof (intro conjI)
  show w: "well_formed genres_table" by (simp add: well_formed_def genres_table_def)
  show d: "distinct (columns genres_table)" by (simp add: genres_table_def)
  show h: "add_genres genres_service genres_table ''artist_id'' = Inr genres_result"
    by (simp add: add_genres_def df_getitem_def df_setitem_def and_then_def
        genres_table_def genres_service_def genres_result_def)
  from genres_aligned[OF w d h]
  show "\<exists>j genres. col_index ''artist_id'' (columns genres_table) = Some j
         \<and> df_getitem genres_result ''genres'' = Inr genres
         \<and> length genres = length (rows genres_table)
         \<and> (\<forall>i<length (rows genres_table).
               \<exists>artist. genres_service i (rows genres_table ! i ! j) = Inr artist
                      \<and> getitem artist ''genres'' = Inr (genres ! i))" .
  show "df_getitem genres_result ''genres''
     = Inr [PList [PStr ''a1'', PInt 0], PList [PStr ''a2'', PInt 1]]"
    by (simp add: df_getitem_def genres_result_def)
qed

text \<open>
  A table in which the label \<^verbatim>\<open>artist_id\<close> stands twice: the loop visits the label,
  not the cells, so the service is asked for \<^verbatim>\<open>'artist_id'\<close> once per column of that
  label (the sample service answers with the identifier it was asked for).
\<close>

lemma repeated_label_asks_for_label:
  "add_genres genres_service
     \<lparr>columns = [''artist_id'', ''artist_id''],
      rows = [[PStr ''a1'', PStr ''b1''], [PStr ''a2'', PStr ''b2'']]\<rparr> ''artist_id''
   = Inr \<lparr>columns = [''artist_id'', ''artist_id'', ''genres''],
          rows = [[PStr ''a1'', PStr ''b1'', PList [PStr ''artist_id'', PInt 0]],
                  [PStr ''a2'', PStr ''b2'', PList [PStr ''artist_id'', PInt 1]]]\<rparr>"
  by (simp add: add_genres_def df_getitem_def df_setitem_def and_then_def genres_service_def)

text \<open>
  A table in which the label \<^verbatim>\<open>genres\<close> stands twice: the value of the row goes
  into both columns, so more than one cell of the row changes.
\<close>

lemma repeated_genres_label_overwritten:
  "add_genres genres_service
     \<lparr>columns = [''artist_id'', ''genres'', ''genres''],
      rows = [[PStr ''a1'', PStr ''rock'', PStr ''pop'']]\<rparr> ''artist_id''
   = Inr \<lparr>columns = [''artist_id'', ''genres'', ''genres''],
          rows = [[PStr ''a1'', PList [PStr ''a1'', PInt 0], PList [PStr ''a1'', PInt 0]]]\<rparr>"
  by (simp add: add_genres_def df_getitem_def df_setitem_def and_then_def genres_service_def)

text \<open>
  C10, as claimed: for every input table one new column \<^verbatim>\<open>genres\<close> is added and every
  column that was there keeps its values. A table that already has a column
  \<^verbatim>\<open>genres\<close> gets no new column, and the values of that column are replaced.
\<close>

theorem genres_overwritten_counterexample:
  "add_genres (\<lambda>i aid. Inr (PDict [(''id'', aid), (''genres'', PList [PStr ''pop''])]))
     \<lparr>columns = [''artist_id'', ''genres''], rows = [[PStr ''a1'', PStr ''kept?'']]\<rparr> ''artist_id''
   = Inr \<lparr>columns = [''artist_id'', ''genres''], rows = [[PStr ''a1'', PList [PStr ''pop'']]]\<rparr>"
  by (simp add: add_genres_def df_getitem_def df_setitem_def and_then_def)

text \<open>
  C10, amended. For a table with pairwise distinct column labels: when \<^verbatim>\<open>add_genres\<close>
  returns, the table has the same number of rows, in the same order. If it had no
  column \<^verbatim>\<open>genres\<close>, exactly one column of that name is added, as the last one, and
  every row keeps its cells in front of the new one. If it had a column \<^verbatim>\<open>genres\<close>,
  the columns are unchanged and each row differs from the input row in that column's
  cell only.
\<close>

theorem add_genres_frame:
  assumes "distinct (columns df)" and "add_genres sp df artist_id = Inr df'"
  shows "length (rows df') = length (rows df)
       \<and> (''genres'' \<notin> set (columns df) \<longrightarrow>
            columns df' = columns df @ [''genres'']
          \<and> (\<forall>i<length (rows df). \<exists>g. rows df' ! i = rows df ! i @ [g]))
       \<and> (''genres'' \<in> set (columns df) \<longrightarrow>
            columns df' = columns df
          \<and> (\<exists>j<length (columns df). columns df ! j = ''genres''
               \<and> (\<forall>i<length (rows df). \<exists>g. rows df' ! i = (rows df ! i)[j := g])))"
proof -
  from assms(2) obtain ids genres where
    ids: "df_getitem df artist_id = Inr ids"
    and loop: "genres_loop sp 0 ids [] = Inr genres"
    and set: "df_setitem df ''genres'' genres = Inr df'"
    by (auto simp: add_genres_def and_then_eq_Inr)
  from df_getitem_distinct[OF assms(1) ids] have "length ids = length (rows df)" by auto
  with genres_loop_Inr[OF loop] have len: "length genres = length (rows df)" by auto
  from set df_setitem_distinct[OF assms(1) len, of "''genres''"] have
    df': "df' = (case col_index ''genres'' (columns df) of
                  Some j \<Rightarrow> df\<lparr>rows := map2 (\<lambda>r v. r[j := v]) (rows df) genres\<rparr>
                | None \<Rightarrow> \<lparr>columns = columns df @ [''genres''],
                           rows = map2 (\<lambda>r v. r @ [v]) (rows df) genres\<rparr>)"
    by simp
  show ?thesis
  proof (cases "col_index ''genres'' (columns df)")
    case None
    with df' len show ?thesis
      by (auto simp: col_index_None)
  next
    case (Some j)
    from col_index_Some[OF Some] have "j < length (columns df)" "columns df ! j = ''genres''"
      by simp_all
    moreover from Some have "''genres'' \<in> set (columns df)"
      using col_index_None[of "''genres''" "columns df"] by auto
    ultimately show ?thesis using df' len Some
      by auto
  qed
qed

theorem add_genres_frame_witness:
  "distinct (columns genres_table)
   \<and> add_genres genres_service genres_table ''artist_id'' = Inr genres_result
   \<and> ''genres'' \<notin> set (columns genres_table)
   \<and> columns genres_result = columns genres_table @ [''genres'']
   \<and> length (rows genres_result) = length (rows genres_table)
   \<and> rows genres_result ! 0 = rows genres_table ! 0 @ [PList [PStr ''a1'', PInt 0]]
   \<and> rows genres_result ! 1 = rows genres_table ! 1 @ [PList [PStr ''a2'', PInt 1]]"
proof -
  have d: "distinct (columns genres_table)" by (simp add: genres_table_def)
  have h: "add_genres genres_service genres_table ''artist_id'' = Inr genres_result"
    by (simp add: add_genres_def df_getitem_def df_setitem_def and_then_def
        genres_table_def genres_service_def genres_result_def)
  have n: "''genres'' \<notin> set (columns genres_table)" by (simp add: genres_table_def)
  from add_genres_frame[OF d h] n have
    "columns genres_result = columns genres_table @ [''genres'']"
    "length (rows genres_result) = length (rows genres_table)" by simp_all
  with d h n show ?thesis by (simp add: genres_table_def genres_result_def)
qed

section \<open>Properties of feature augmentation\<close>

lemma filter_None_append: "filter_None (xs @ ys) = filter_None xs @ filter_None ys"
  by (induction xs rule: filter_None.induct) auto

lemma features_loop_no_result:
  "\<forall>k<length ids. no_result (sp (i + k) (ids ! k)) \<Longrightarrow>
   \<exists>fl. features_loop sp i ids features_list = Inr fl \<and> filter_None fl = filter_None features_list"
proof (induction ids arbitrary: i features_list)
  case Nil
  then show ?case by simp
next
  case (Cons tid ids)
  from Cons.prems have here: "no_result (sp i tid)" by force
  from Cons.prems have later: "\<forall>k<length ids. no_result (sp (Suc i + k) (ids ! k))" by force
  from here obtain f fs where f: "sp i tid = Inr (f # fs)" "filter_None [f] = []"
    by (cases "sp i tid" rule: no_result.cases) auto
  from Cons.IH[OF later, of "features_list @ [f]"] f show ?case
    by (auto simp: and_then_Inr filter_None_append)
qed

text \<open>
  C9. If every feature lookup of the call returns an empty result, the table of
  features has no column, dropping the three URI columns from it raises \<^verbatim>\<open>KeyError\<close>,
  and \<^verbatim>\<open>generate_features\<close> ends with that exception instead of returning the input
  table with null feature columns. This holds for every table that has the identifier
  column, the non-empty ones included.
\<close>

theorem all_lookups_empty_raises:
  assumes "df_getitem df track_id = Inr ids"
    and "\<forall>i<length ids. no_result (sp i (ids ! i))"
  shows "generate_features sp df track_id = Inl KeyError"
proof -
  from features_loop_no_result[of ids sp 0 "[]"] assms(2) obtain fl where
    "features_loop sp 0 ids [] = Inr fl" "filter_None fl = []" by auto
  with assms(1) show ?thesis
    by (simp add: generate_features_def and_then_Inr and_then_Inl DataFrame_def unique_def
        boolean_mask_def df_drop_def)
qed

theorem all_lookups_empty_raises_witness:
  "df_getitem \<lparr>columns = [''track_id'', ''mood''],
               rows = [[PStr ''t1'', PStr ''Happy''], [PStr ''t2'', PStr ''Sad'']]\<rparr> ''track_id''
     = Inr [PStr ''t1'', PStr ''t2'']
   \<and> no_result ((\<lambda>i tid. Inr [None]) (0::nat) (PStr ''t1''))
   \<and> no_result ((\<lambda>i tid. Inr [None]) (1::nat) (PStr ''t2''))
   \<and> generate_features (\<lambda>i tid. Inr [None])
       \<lparr>columns = [''track_id'', ''mood''],
        rows = [[PStr ''t1'', PStr ''Happy''], [PStr ''t2'', PStr ''Sad'']]\<rparr> ''track_id''
     = Inl KeyError"
proof -
  have h: "df_getitem \<lparr>columns = [''track_id'', ''mood''],
               rows = [[PStr ''t1'', PStr ''Happy''], [PStr ''t2'', PStr ''Sad'']]\<rparr> ''track_id''
     = Inr [PStr ''t1'', PStr ''t2'']"
    by (simp add: df_getitem_def)
  from all_lookups_empty_raises[OF h, of "\<lambda>i tid. Inr [None]"] h show ?thesis by simp
qed

text \<open>
  Where the row count is kept: a left join against a table whose key values are
  pairwise distinct returns one row per row of the left table.
\<close>

lemma filter_key_distinct:
  "distinct (map f rs) \<Longrightarrow> length (filter (\<lambda>r. f r = k) rs) \<le> 1"
proof (induction rs)
  case Nil
  then show ?case by simp
next
  case (Cons r rs)
  show ?case
  proof (cases "f r = k")
    case True
    with Cons.prems have "filter (\<lambda>r. f r = k) rs = []"
      by (force simp: filter_empty_conv image_iff)
    with True show ?thesis by simp
  next
    case False
    with Cons show ?thesis by simp
  qed
qed

lemma merge_left_row_count:
  assumes "merge_left left right key = Inr out"
    and "col_index key (columns right) = Some j"
    and "distinct (map (\<lambda>r. r ! j) (rows right))"
  shows "length (rows out) = length (rows left)"
proof -
  from assms(1,2) obtain i where
    out: "rows out = concat (map (\<lambda>l.
             case filter (\<lambda>r. r ! j = l ! i) (rows right) of
               [] \<Rightarrow> [l @ replicate (length (columns right) - 1) PNone]
             | m # ms \<Rightarrow> map (\<lambda>r. l @ drop_nth j r) (m # ms)) (rows left))"
    by (auto simp: merge_left_def split: option.splits if_splits)
  have one: "length (case filter (\<lambda>r. r ! j = l ! i) (rows right) of
               [] \<Rightarrow> [l @ replicate (length (columns right) - 1) PNone]
             | m # ms \<Rightarrow> map (\<lambda>r. l @ drop_nth j r) (m # ms)) = 1" for l
    using filter_key_distinct[OF assms(3), of "l ! i"]
    by (cases "filter (\<lambda>r. r ! j = l ! i) (rows right)") auto
  have "length (concat (map g ls)) = length ls" if "\<And>l. length (g l) = 1"
    for g :: "pyval list \<Rightarrow> pyval list list" and ls
    using that by (induction ls) auto
  from this[of _ "rows left", OF one] out show ?thesis by simp
qed

text \<open>
  C1. The specification expects as many rows out as in, whatever the lookups return. A table
  with the same track under two moods (both rows survive deduplication) has two rows;
  each lookup returns the features of the track, so the feature table holds the
  identifier twice, the left join pairs each input row with both feature rows, and
  four rows are returned.
\<close>

theorem shared_track_id_multiplies_rows:
  "generate_features (\<lambda>i tid. Inr [Some (features_of tid)])
     \<lparr>columns = [''index'', ''track_name'', ''track_id'', ''mood''],
      rows = [[PInt 0, PStr ''One'', PStr ''t1'', PStr ''Happy''],
              [PInt 1, PStr ''One'', PStr ''t1'', PStr ''Energetic'']]\<rparr>
     ''track_id''
   = Inr \<lparr>columns = [''track_name'', ''track_id'', ''mood'',
                     ''danceability'', ''energy'', ''type'', ''duration_ms''],
          rows = [[PStr ''One'', PStr ''t1'', PStr ''Happy'',
                   PInt 1, PInt 0, PStr ''audio_features'', PInt 200000],
                  [PStr ''One'', PStr ''t1'', PStr ''Happy'',
                   PInt 1, PInt 0, PStr ''audio_features'', PInt 200000],
                  [PStr ''One'', PStr ''t1'', PStr ''Energetic'',
                   PInt 1, PInt 0, PStr ''audio_features'', PInt 200000],
                  [PStr ''One'', PStr ''t1'', PStr ''Energetic'',
                   PInt 1, PInt 0, PStr ''audio_features'', PInt 200000]]\<rparr>"
  by code_simp

end
